theory Spec2Isabelle
  imports Complex_Main "HOL-Library.Sublist"
begin

section \<open>md2docx: the conversion request handler of \<open>app.py\<close>\<close>

text \<open>
  The program is one Flask view function, \<open>convert_markdown_to_docx\<close>. It reads the
  request, writes the Markdown text to a scratch file, runs \<open>pandoc\<close> on it, classifies
  the outcome and removes both scratch files in a \<open>finally\<close> block.

  The embedding passes the state of the outside world explicitly. Everything the handler
  cannot decide itself (the token drawn by \<open>uuid.uuid4()\<close>, whether an operating system
  call fails, what the converter process does) is a field of an environment record, so
  that each raise of the source is a branch of the model.
\<close>

subsection \<open>Values of the request body\<close>

text \<open>
  \<open>request.get_json()\<close> parses the body with Python's \<open>json\<close> module. A float is kept
  only as far as its truth value needs: a finite value, or one of the three special
  values that \<open>json.loads\<close> accepts.

  The value of a JSON string is a Python \<open>str\<close>: a list of code points (each below
  \<open>0x110000\<close>), among them the surrogates \<open>0xD800\<close> to \<open>0xDFFF\<close>, which an escape
  sequence of a JSON text can put there alone. Text that the handler only compares or
  passes on (keys, messages, the output of the converter, the bytes of a file) is a
  \<open>string\<close>.
\<close>

type_synonym pystr = "nat list"

datatype pyfloat = Finite rat | PosInf | NegInf | NaN

datatype json =
    JNull
  | JBool bool
  | JInt int
  | JFloat pyfloat
  | JStr pystr
  | JArr "json list"
  | JObj "(string \<times> json) list"

text \<open>Exceptions that can leave the handler.\<close>

datatype exn =
    BadRequest          \<comment> \<open>werkzeug's HTTP exception, raised by \<open>get_json\<close> on an unparsable body\<close>
  | AttributeError
  | TypeError
  | UnicodeEncodeError
  | OSError
  | FileNotFoundError
  | TimeoutExpired

text \<open>Python's truth value of a parsed JSON value, as \<open>not markdown_content\<close> tests it.\<close>

fun truthy :: "json \<Rightarrow> bool" where
  "truthy JNull = False"
| "truthy (JBool b) = b"
| "truthy (JInt i) = (i \<noteq> 0)"
| "truthy (JFloat f) = (f \<noteq> Finite 0)"
| "truthy (JStr s) = (s \<noteq> [])"
| "truthy (JArr xs) = (xs \<noteq> [])"
| "truthy (JObj kvs) = (kvs \<noteq> [])"

text \<open>
  \<open>data.get(key)\<close>: only a dict has the method. A dict is an association list whose
  first binding of a key is the one the dict holds; a missing key gives \<open>None\<close>.
\<close>

fun py_get :: "json \<Rightarrow> string \<Rightarrow> exn + json" where
  "py_get (JObj kvs) key = Inr (case map_of kvs key of None \<Rightarrow> JNull | Some v \<Rightarrow> v)"
| "py_get _ key = Inl AttributeError"

subsection \<open>Requests and responses\<close>

record request =
  is_json :: bool
  get_json :: "json option"   \<comment> \<open>\<open>None\<close>: the body does not parse\<close>

datatype payload =
    JsonBody "(string \<times> string) list"
  | FileBody string
  | HtmlBody

record response =
  status :: nat
  mimetype :: string
  as_attachment :: bool               \<comment> \<open>\<open>Content-Disposition: attachment\<close>\<close>
  download_name :: "string option"    \<comment> \<open>the file name of \<open>Content-Disposition\<close>\<close>
  body :: payload

definition jsonify :: "(string \<times> string) list \<Rightarrow> response" where
  "jsonify d = \<lparr>status = 200, mimetype = ''application/json'',
                as_attachment = False, download_name = None,
                body = JsonBody d\<rparr>"

text \<open>A view's return value \<open>(response, code)\<close> sets the status of the response.\<close>

definition with_status :: "response \<Rightarrow> nat \<Rightarrow> response" where
  "with_status r code = r\<lparr>status := code\<rparr>"

subsection \<open>The world outside the handler\<close>

type_synonym path = string
type_synonym filesystem = "path \<rightharpoonup> string"

record world =
  files :: filesystem        \<comment> \<open>the files that exist, with their contents\<close>
  spawned :: nat             \<comment> \<open>child processes started so far\<close>
  running :: nat             \<comment> \<open>child processes still alive\<close>
  printed :: "string list"   \<comment> \<open>lines written by \<open>print\<close>\<close>

record completed_process =
  returncode :: int
  stdout :: string
  stderr :: string

text \<open>
  What a child process does within the time it is given: it exits, or it is still running
  when the time is over; each with the files it has left. \<open>NotStarted\<close>: the executable
  is not on the search path.
\<close>

datatype proc_outcome =
    Exited completed_process filesystem
  | StillRunning filesystem
  | NotStarted

record env =
  uuid4 :: string                       \<comment> \<open>the text of the token \<open>uuid.uuid4()\<close> draws\<close>
  environ :: "string \<rightharpoonup> string"    \<comment> \<open>the process environment\<close>
  open_error :: "path \<Rightarrow> bool"            \<comment> \<open>\<open>open(path, 'w')\<close> fails\<close>
  write_error :: "path \<Rightarrow> bool"           \<comment> \<open>writing to the open file fails\<close>
  exec :: "string list \<Rightarrow> nat \<Rightarrow> filesystem \<Rightarrow> proc_outcome"
                                        \<comment> \<open>the child run with a command line and a time limit\<close>
  send_error :: "path \<Rightarrow> bool"            \<comment> \<open>\<open>send_file\<close> cannot open the file\<close>
  remove_error :: "path \<Rightarrow> bool"          \<comment> \<open>\<open>os.remove(path)\<close> fails\<close>

subsection \<open>Library calls\<close>

text \<open>\<open>os.path.join\<close> of two components (posixpath).\<close>

definition os_path_join :: "path \<Rightarrow> path \<Rightarrow> path" where
  "os_path_join a b =
     (if b \<noteq> [] \<and> hd b = CHR ''/'' then b
      else if a = [] \<or> last a = CHR ''/'' then a @ b
      else a @ ''/'' @ b)"

definition os_path_exists :: "world \<Rightarrow> path \<Rightarrow> bool" where
  "os_path_exists w p = (files w p \<noteq> None)"

definition os_remove :: "env \<Rightarrow> path \<Rightarrow> world \<Rightarrow> (exn + unit) \<times> world" where
  "os_remove e p w =
     (if remove_error e p then (Inl OSError, w)
      else case files w p of
             None \<Rightarrow> (Inl FileNotFoundError, w)
           | Some _ \<Rightarrow> (Inr (), w\<lparr>files := (files w)(p := None)\<rparr>))"

text \<open>
  \<open>s.encode('utf-8')\<close>, as the text file does it for what is written: one to four bytes
  for each code point, and \<open>UnicodeEncodeError\<close> when the text holds a surrogate.
\<close>

definition is_surrogate :: "nat \<Rightarrow> bool" where
  "is_surrogate cp = (0xD800 \<le> cp \<and> cp \<le> 0xDFFF)"

definition utf8_bytes :: "nat \<Rightarrow> string" where
  "utf8_bytes cp =
     (if cp < 0x80 then [char_of cp]
      else if cp < 0x800 then [char_of (0xC0 + cp div 0x40), char_of (0x80 + cp mod 0x40)]
      else if cp < 0x10000 then
        [char_of (0xE0 + cp div 0x1000), char_of (0x80 + cp div 0x40 mod 0x40),
         char_of (0x80 + cp mod 0x40)]
      else
        [char_of (0xF0 + cp div 0x40000), char_of (0x80 + cp div 0x1000 mod 0x40),
         char_of (0x80 + cp div 0x40 mod 0x40), char_of (0x80 + cp mod 0x40)])"

definition str_encode :: "pystr \<Rightarrow> exn + string" where
  "str_encode s =
     (if list_ex is_surrogate s then Inl UnicodeEncodeError
      else Inr (concat (map utf8_bytes s)))"

text \<open>
  \<open>with open(path, 'w', encoding='utf-8') as f: f.write(content)\<close>.
  Opening creates or truncates the file. \<open>f.write\<close> raises \<open>TypeError\<close> for a value that
  is not a \<open>str\<close> and \<open>UnicodeEncodeError\<close> for a \<open>str\<close> that cannot be encoded, both
  before anything is written; the \<open>with\<close> statement closes the file and lets the
  exception pass.
\<close>

definition write_text :: "env \<Rightarrow> path \<Rightarrow> json \<Rightarrow> world \<Rightarrow> (exn + unit) \<times> world" where
  "write_text e p content w =
     (if open_error e p then (Inl OSError, w)
      else let w1 = w\<lparr>files := (files w)(p \<mapsto> [])\<rparr> in
        case content of
          JStr s \<Rightarrow>
            (case str_encode s of
               Inl x \<Rightarrow> (Inl x, w1)
             | Inr bytes \<Rightarrow>
                 if write_error e p then (Inl OSError, w1)
                 else (Inr (), w1\<lparr>files := (files w1)(p \<mapsto> bytes)\<rparr>))
        | _ \<Rightarrow> (Inl TypeError, w1))"

text \<open>
  \<open>subprocess.run(command, capture_output=True, text=True, timeout=t)\<close>. When the time
  is over, \<open>run\<close> kills the child, waits for it and raises \<open>TimeoutExpired\<close>.
\<close>

definition spawn :: "world \<Rightarrow> world" where
  "spawn w = w\<lparr>spawned := Suc (spawned w), running := Suc (running w)\<rparr>"

definition reap :: "world \<Rightarrow> world" where
  "reap w = w\<lparr>running := running w - 1\<rparr>"

definition subprocess_run ::
  "env \<Rightarrow> string list \<Rightarrow> nat \<Rightarrow> world \<Rightarrow> (exn + completed_process) \<times> world" where
  "subprocess_run e command timeout w =
     (case exec e command timeout (files w) of
        NotStarted \<Rightarrow> (Inl FileNotFoundError, w)
      | StillRunning fs \<Rightarrow> (Inl TimeoutExpired, reap ((spawn w)\<lparr>files := fs\<rparr>))
      | Exited result fs \<Rightarrow> (Inr result, reap ((spawn w)\<lparr>files := fs\<rparr>)))"

definition print :: "string \<Rightarrow> world \<Rightarrow> world" where
  "print line w = w\<lparr>printed := printed w @ [line]\<rparr>"

text \<open>\<open>send_file(path, as_attachment=True, download_name=..., mimetype=...)\<close>.\<close>

definition send_file ::
  "env \<Rightarrow> path \<Rightarrow> bool \<Rightarrow> string \<Rightarrow> string \<Rightarrow> world \<Rightarrow> (exn + response) \<times> world" where
  "send_file e p attach name mime w =
     (if send_error e p then (Inl OSError, w)
      else case files w p of
             None \<Rightarrow> (Inl FileNotFoundError, w)
           | Some content \<Rightarrow>
               (Inr \<lparr>status = 200, mimetype = mime, as_attachment = attach,
                     download_name = Some name,
                     body = FileBody content\<rparr>, w))"

subsection \<open>The handler\<close>

text \<open>Line 21: the directory of the scratch files.\<close>

definition TEMP_DIR :: path where
  "TEMP_DIR = ''/tmp''"

text \<open>
  Lines 45 to 47: \<open>unique_id = str(uuid.uuid4())\<close> is \<open>uuid4 e\<close>, and both paths are
  joined from \<open>TEMP_DIR\<close> and the token.
\<close>

definition input_md_path :: "env \<Rightarrow> path" where
  "input_md_path e = os_path_join TEMP_DIR (uuid4 e @ ''.md'')"

definition output_docx_path :: "env \<Rightarrow> path" where
  "output_docx_path e = os_path_join TEMP_DIR (uuid4 e @ ''.docx'')"

definition docx_mimetype :: string where
  "docx_mimetype = ''application/vnd.openxmlformats-officedocument.wordprocessingml.document''"

text \<open>
  Lines 50 to 95, the block under \<open>try:\<close>: write the input, run the converter, look at
  the exit code, then at the output file, then send the file. Each step that raises ends
  the block with the exception.
\<close>

definition try_block :: "env \<Rightarrow> json \<Rightarrow> world \<Rightarrow> (exn + response) \<times> world" where
  "try_block e markdown_content w =
     (case write_text e (input_md_path e) markdown_content w of
        (Inl x, w1) \<Rightarrow> (Inl x, w1)
      | (Inr _, w1) \<Rightarrow>
          (case subprocess_run e [''pandoc'', input_md_path e, ''-o'', output_docx_path e] 30 w1 of
             (Inl x, w2) \<Rightarrow> (Inl x, w2)
           | (Inr result, w2) \<Rightarrow>
               if returncode result \<noteq> 0 then
                 (Inr (with_status
                         (jsonify [(''error'', ''Pandoc conversion failed''),
                                   (''details'', stderr result)]) 500),
                  print (''Pandoc Error: '' @ stderr result) w2)
               else if \<not> os_path_exists w2 (output_docx_path e) then
                 (Inr (with_status
                         (jsonify [(''error'', ''Converted file not found on server'')]) 500),
                  w2)
               else
                 send_file e (output_docx_path e) True ''converted_document.docx'' docx_mimetype w2))"

text \<open>
  Lines 97 to 103, the block under \<open>finally:\<close>: each file is removed if it exists. An
  exception of the first \<open>os.remove\<close> ends the block before the second file is looked at.
\<close>

definition finally_block :: "env \<Rightarrow> world \<Rightarrow> (exn + unit) \<times> world" where
  "finally_block e w =
     (case (if os_path_exists w (input_md_path e) then os_remove e (input_md_path e) w
            else (Inr (), w)) of
        (Inl x, w1) \<Rightarrow> (Inl x, w1)
      | (Inr _, w1) \<Rightarrow>
          (if os_path_exists w1 (output_docx_path e) then os_remove e (output_docx_path e) w1
           else (Inr (), w1)))"

text \<open>
  \<open>try: ... finally: ...\<close>: the second block runs after the first, whatever its
  outcome; an exception of the second block replaces that outcome.
\<close>

definition try_finally ::
  "(exn + 'a) \<times> world \<Rightarrow> (world \<Rightarrow> (exn + unit) \<times> world) \<Rightarrow> (exn + 'a) \<times> world" where
  "try_finally tried fin =
     (case fin (snd tried) of
        (Inl x, w') \<Rightarrow> (Inl x, w')
      | (Inr _, w') \<Rightarrow> (fst tried, w'))"

text \<open>
  Lines 28 to 103, the view function. A result \<open>Inr r\<close> is the response it returns,
  \<open>Inl x\<close> the exception that leaves it; the second component is the world afterwards.
\<close>

definition convert_markdown_to_docx ::
  "env \<Rightarrow> request \<Rightarrow> world \<Rightarrow> (exn + response) \<times> world" where
  "convert_markdown_to_docx e req w =
     (if \<not> is_json req then
        (Inr (with_status (jsonify [(''error'', ''Request must be JSON'')]) 415), w)
      else case get_json req of
        None \<Rightarrow> (Inl BadRequest, w)
      | Some data \<Rightarrow>
          (case py_get data ''markdown'' of
             Inl x \<Rightarrow> (Inl x, w)
           | Inr markdown_content \<Rightarrow>
               if \<not> truthy markdown_content then
                 (Inr (with_status
                         (jsonify [(''error'', ''Missing 'markdown' key in request body'')]) 400),
                  w)
               else try_finally (try_block e markdown_content w) (finally_block e)))"

text \<open>
  The HTTP layer: Flask sends the response a view returns; it answers an HTTP exception
  with that exception's status and any other exception with status 500.
\<close>

definition http_layer :: "exn + response \<Rightarrow> response" where
  "http_layer out =
     (case out of
        Inr r \<Rightarrow> r
      | Inl x \<Rightarrow> \<lparr>status = (if x = BadRequest then 400 else 500), mimetype = ''text/html'',
                   as_attachment = False, download_name = None, body = HtmlBody\<rparr>)"

subsection \<open>Vocabulary of the properties\<close>

text \<open>
  Whether an \<open>os.remove\<close> of the \<open>finally\<close> block raises, given the files the \<open>try\<close>
  block has left: the input artifact exists and cannot be removed, or (the input artifact
  being out of the way) the output artifact exists and cannot be removed.
\<close>

definition deletion_raises :: "env \<Rightarrow> filesystem \<Rightarrow> bool" where
  "deletion_raises e fs =
     ((fs (input_md_path e) \<noteq> None \<and> remove_error e (input_md_path e)) \<or>
      ((fs(input_md_path e := None)) (output_docx_path e) \<noteq> None \<and>
       remove_error e (output_docx_path e)))"

text \<open>\<open>isinstance(data, dict)\<close>.\<close>

fun is_dict :: "json \<Rightarrow> bool" where
  "is_dict (JObj kvs) = True"
| "is_dict _ = False"

text \<open>
  The text of a version-4 UUID as \<open>str(uuid.uuid4())\<close> prints it: 32 lower-case
  hexadecimal digits in groups of 8, 4, 4, 4 and 12, separated by hyphens.
\<close>

definition hexdigit :: "char \<Rightarrow> bool" where
  "hexdigit c = (c \<in> set ''0123456789abcdef'')"

definition is_uuid_str :: "string \<Rightarrow> bool" where
  "is_uuid_str s =
     (length s = 36 \<and>
      list_all hexdigit (take 8 s) \<and> s ! 8 = CHR ''-'' \<and>
      list_all hexdigit (take 4 (drop 9 s)) \<and> s ! 13 = CHR ''-'' \<and>
      list_all hexdigit (take 4 (drop 14 s)) \<and> s ! 18 = CHR ''-'' \<and>
      list_all hexdigit (take 4 (drop 19 s)) \<and> s ! 23 = CHR ''-'' \<and>
      list_all hexdigit (drop 24 s))"




subsection \<open>Concrete requests and environments\<close>

text \<open>The \<open>str\<close> of a text of ASCII characters.\<close>

definition ascii :: "string \<Rightarrow> pystr" where
  "ascii cs = map of_char cs"

definition is_ascii :: "string \<Rightarrow> bool" where
  "is_ascii cs = list_all (\<lambda>c. (of_char c :: nat) < 0x80) cs"

definition token :: string where
  "token = ''3f2b8c1e-9d4a-4e7b-8a6f-0c5d1e2f3a4b''"

text \<open>An environment in which no operating system call fails, around a given converter.\<close>

definition quiet_env :: "(string list \<Rightarrow> nat \<Rightarrow> filesystem \<Rightarrow> proc_outcome) \<Rightarrow> env" where
  "quiet_env child =
     \<lparr>uuid4 = token, environ = Map.empty, open_error = (\<lambda>_. False),
      write_error = (\<lambda>_. False), exec = child, send_error = (\<lambda>_. False),
      remove_error = (\<lambda>_. False)\<rparr>"

text \<open>Five converters: one that writes its output, one that rejects its input, one that
  exits with code 0 and writes nothing, one that writes the path of its output into the
  document, one that does not finish in time.\<close>

definition pandoc_writes :: "string list \<Rightarrow> nat \<Rightarrow> filesystem \<Rightarrow> proc_outcome" where
  "pandoc_writes command limit fs =
     (case command of
        [prog, inp, opt, out] \<Rightarrow>
          Exited \<lparr>returncode = 0, stdout = [], stderr = []\<rparr> (fs(out \<mapsto> ''PK-docx''))
      | _ \<Rightarrow> NotStarted)"




definition pandoc_hangs :: "string list \<Rightarrow> nat \<Rightarrow> filesystem \<Rightarrow> proc_outcome" where
  "pandoc_hangs command limit fs = StillRunning fs"

definition empty_world :: world where
  "empty_world = \<lparr>files = Map.empty, spawned = 0, running = 0, printed = []\<rparr>"

definition hello_request :: request where
  "hello_request =
     \<lparr>is_json = True, get_json = Some (JObj [(''markdown'', JStr (ascii ''# Hello''))])\<rparr>"

section \<open>Auxiliary facts\<close>

lemmas example_defs = token_def quiet_env_def empty_world_def hello_request_def

lemmas path_defs = input_md_path_def output_docx_path_def os_path_join_def TEMP_DIR_def

subsection \<open>Encoding\<close>

lemma str_encode_ascii:
  assumes "is_ascii cs"
  shows "str_encode (ascii cs) = Inr cs"
proof -
  have "\<not> list_ex is_surrogate (ascii cs)"
    using assms by (auto simp: is_ascii_def ascii_def list_ex_iff list_all_iff is_surrogate_def)
  moreover have "concat (map utf8_bytes (ascii cs)) = cs"
    using assms by (induction cs) (simp_all add: is_ascii_def ascii_def utf8_bytes_def)
  ultimately show ?thesis
    by (simp add: str_encode_def)
qed

lemma ascii_empty: "ascii cs = [] \<longleftrightarrow> cs = []"
  by (simp add: ascii_def)

lemma str_encode_error:
  assumes "str_encode s = Inl x"
  shows "x = UnicodeEncodeError"
  using assms by (simp add: str_encode_def split: if_splits)

subsection \<open>The two blocks\<close>

lemma finally_block_cases:
  "finally_block e w =
     (if os_path_exists w (input_md_path e) \<and> remove_error e (input_md_path e)
      then (Inl OSError, w)
      else let w1 = w\<lparr>files := (files w)(input_md_path e := None)\<rparr> in
        if os_path_exists w1 (output_docx_path e) \<and> remove_error e (output_docx_path e)
        then (Inl OSError, w1)
        else (Inr (), w1\<lparr>files := (files w1)(output_docx_path e := None)\<rparr>))"
  by (auto simp: finally_block_def os_path_exists_def os_remove_def Let_def fun_upd_idem
           split: option.splits)

lemma finally_block_outcome:
  "fst (finally_block e w) = (if deletion_raises e (files w) then Inl OSError else Inr ())"
  by (simp add: finally_block_cases deletion_raises_def os_path_exists_def Let_def)

lemma finally_block_quiet:
  assumes "\<not> deletion_raises e (files w)"
  shows "finally_block e w =
           (Inr (), w\<lparr>files := (files w)(input_md_path e := None, output_docx_path e := None)\<rparr>)"
  using assms
  by (simp add: finally_block_cases deletion_raises_def os_path_exists_def Let_def)

lemma finally_block_leftovers:
  "(os_path_exists (snd (finally_block e w)) (input_md_path e) \<or>
    os_path_exists (snd (finally_block e w)) (output_docx_path e)) \<longleftrightarrow>
   deletion_raises e (files w)"
  by (auto simp: finally_block_cases deletion_raises_def os_path_exists_def Let_def)

lemma no_remove_error_quiet:
  assumes "\<not> remove_error e (input_md_path e)" and "\<not> remove_error e (output_docx_path e)"
  shows "\<not> deletion_raises e fs"
  using assms by (simp add: deletion_raises_def)

lemma handler_after_validation:
  assumes "is_json req" and "get_json req = Some data"
    and "py_get data ''markdown'' = Inr m" and "truthy m"
  shows "convert_markdown_to_docx e req w = try_finally (try_block e m w) (finally_block e)"
  using assms by (simp add: convert_markdown_to_docx_def)

lemma try_finally_outcome:
  "fst (try_finally tried (finally_block e)) =
     (if deletion_raises e (files (snd tried)) then Inl OSError else fst tried)"
  using finally_block_outcome [of e "snd tried"]
  by (auto simp: try_finally_def split: prod.splits sum.splits)

lemma try_finally_world:
  "snd (try_finally tried fin) = snd (fin (snd tried))"
  by (simp add: try_finally_def split: prod.splits sum.splits)


lemma try_block_converter:
  assumes "str_encode s = Inr bytes"
    and "\<not> open_error e (input_md_path e)" and "\<not> write_error e (input_md_path e)"
  shows "try_block e (JStr s) w =
     (case exec e [''pandoc'', input_md_path e, ''-o'', output_docx_path e] 30
             ((files w)(input_md_path e \<mapsto> bytes)) of
        NotStarted \<Rightarrow>
          (Inl FileNotFoundError, w\<lparr>files := (files w)(input_md_path e \<mapsto> bytes)\<rparr>)
      | StillRunning fs \<Rightarrow> (Inl TimeoutExpired, w\<lparr>files := fs, spawned := Suc (spawned w)\<rparr>)
      | Exited result fs \<Rightarrow>
          (let w2 = w\<lparr>files := fs, spawned := Suc (spawned w)\<rparr> in
           if returncode result \<noteq> 0 then
             (Inr \<lparr>status = 500, mimetype = ''application/json'',
                   as_attachment = False, download_name = None,
                   body = JsonBody [(''error'', ''Pandoc conversion failed''),
                                    (''details'', stderr result)]\<rparr>,
              w2\<lparr>printed := printed w @ [''Pandoc Error: '' @ stderr result]\<rparr>)
           else case fs (output_docx_path e) of
             None \<Rightarrow>
               (Inr \<lparr>status = 500, mimetype = ''application/json'',
                     as_attachment = False, download_name = None,
                     body = JsonBody [(''error'', ''Converted file not found on server'')]\<rparr>, w2)
           | Some content \<Rightarrow>
               if send_error e (output_docx_path e) then (Inl OSError, w2)
               else (Inr \<lparr>status = 200, mimetype = docx_mimetype,
                          as_attachment = True,
                          download_name = Some ''converted_document.docx'',
                          body = FileBody content\<rparr>, w2)))"
  using assms
  by (simp add: try_block_def write_text_def subprocess_run_def spawn_def reap_def print_def
        os_path_exists_def send_file_def jsonify_def with_status_def Let_def
      split: proc_outcome.splits option.splits)

lemma try_block_write_failure:
  assumes "fst (write_text e (input_md_path e) m w) = Inl x"
  shows "fst (try_block e m w) = Inl x"
  using assms by (auto simp: try_block_def split: prod.splits sum.splits)


subsection \<open>Tokens\<close>





lemma uuid_str_relative:
  assumes "is_uuid_str s"
  shows "s \<noteq> []" and "hd s \<noteq> CHR ''/''"
proof -
  from assms have len: "length s = 36" and hex: "list_all hexdigit (take 8 s)"
    by (simp_all add: is_uuid_str_def)
  from len show "s \<noteq> []" by auto
  then have "hd s \<in> set (take 8 s)"
    by (cases s) simp_all
  with hex have "hexdigit (hd s)"
    by (simp add: list_all_iff)
  then show "hd s \<noteq> CHR ''/''"
    by (auto simp: hexdigit_def)
qed

lemma uuid_paths:
  assumes "is_uuid_str (uuid4 e)"
  shows "input_md_path e = ''/tmp/'' @ uuid4 e @ ''.md''"
    and "output_docx_path e = ''/tmp/'' @ uuid4 e @ ''.docx''"
  using uuid_str_relative [OF assms] by (simp_all add: path_defs)

lemma token_is_uuid: "is_uuid_str token"
  by (simp add: is_uuid_str_def token_def hexdigit_def)

lemma hello_encoded: "str_encode (ascii ''# Hello'') = Inr ''# Hello''"
  by (simp add: str_encode_ascii is_ascii_def)

section \<open>The claims\<close>

subsection \<open>C1: no scratch artifact is left behind\<close>

text \<open>
  C1 as stated fails. The converter has written its output and the success response is
  determined; \<open>os.remove\<close> then raises for the input artifact. The \<open>finally\<close> block ends
  there, and both artifacts exist when the handler is left.
\<close>

theorem artifacts_survive_counterexample:
  "os_path_exists
     (snd (convert_markdown_to_docx
        ((quiet_env pandoc_writes)
           \<lparr>remove_error := (\<lambda>p. p = ''/tmp/3f2b8c1e-9d4a-4e7b-8a6f-0c5d1e2f3a4b.md'')\<rparr>)
        hello_request empty_world))
     ''/tmp/3f2b8c1e-9d4a-4e7b-8a6f-0c5d1e2f3a4b.md'' \<and>
   os_path_exists
     (snd (convert_markdown_to_docx
        ((quiet_env pandoc_writes)
           \<lparr>remove_error := (\<lambda>p. p = ''/tmp/3f2b8c1e-9d4a-4e7b-8a6f-0c5d1e2f3a4b.md'')\<rparr>)
        hello_request empty_world))
     ''/tmp/3f2b8c1e-9d4a-4e7b-8a6f-0c5d1e2f3a4b.docx''"
  by (simp add: convert_markdown_to_docx_def try_finally_def try_block_def finally_block_def
        write_text_def subprocess_run_def spawn_def reap_def os_path_exists_def os_remove_def
        send_file_def hello_encoded ascii_empty example_defs pandoc_writes_def path_defs)

text \<open>
  C1, amended. For every request that passes validation, the \<open>finally\<close> block runs on
  every exit path of the \<open>try\<close> block (a success response, an error response, or an
  exception raised while the response is produced). When the handler is left, one of the
  two artifacts exists exactly if an \<open>os.remove\<close> of the \<open>finally\<close> block has raised; in
  particular, when \<open>os.remove\<close> raises for neither path, neither artifact exists.
\<close>

theorem artifacts_after_return:
  assumes "is_json req" and "get_json req = Some data"
    and "py_get data ''markdown'' = Inr m" and "truthy m"
  shows "((os_path_exists (snd (convert_markdown_to_docx e req w)) (input_md_path e) \<or>
           os_path_exists (snd (convert_markdown_to_docx e req w)) (output_docx_path e)) \<longleftrightarrow>
          deletion_raises e (files (snd (try_block e m w)))) \<and>
         (\<not> remove_error e (input_md_path e) \<and> \<not> remove_error e (output_docx_path e) \<longrightarrow>
          \<not> os_path_exists (snd (convert_markdown_to_docx e req w)) (input_md_path e) \<and>
          \<not> os_path_exists (snd (convert_markdown_to_docx e req w)) (output_docx_path e))"
proof -
  have left: "(os_path_exists (snd (convert_markdown_to_docx e req w)) (input_md_path e) \<or>
           os_path_exists (snd (convert_markdown_to_docx e req w)) (output_docx_path e)) \<longleftrightarrow>
          deletion_raises e (files (snd (try_block e m w)))"
    by (simp add: handler_after_validation [OF assms] try_finally_world finally_block_leftovers)
  moreover have "\<not> deletion_raises e (files (snd (try_block e m w)))"
    if "\<not> remove_error e (input_md_path e) \<and> \<not> remove_error e (output_docx_path e)"
    using that by (simp add: no_remove_error_quiet)
  ultimately show ?thesis
    by blast
qed

text \<open>
  C1, amended, at a concrete input. The exit path taken: the converter has written its
  output and \<open>send_file\<close> raises while the response is produced; no deletion fails.
\<close>

theorem artifacts_after_return_witness:
  "\<not> os_path_exists
       (snd (convert_markdown_to_docx ((quiet_env pandoc_writes)\<lparr>send_error := (\<lambda>_. True)\<rparr>)
               hello_request empty_world))
       (input_md_path ((quiet_env pandoc_writes)\<lparr>send_error := (\<lambda>_. True)\<rparr>)) \<and>
   \<not> os_path_exists
       (snd (convert_markdown_to_docx ((quiet_env pandoc_writes)\<lparr>send_error := (\<lambda>_. True)\<rparr>)
               hello_request empty_world))
       (output_docx_path ((quiet_env pandoc_writes)\<lparr>send_error := (\<lambda>_. True)\<rparr>))"
  using artifacts_after_return
    [of hello_request "JObj [(''markdown'', JStr (ascii ''# Hello''))]" "JStr (ascii ''# Hello'')"
      "(quiet_env pandoc_writes)\<lparr>send_error := (\<lambda>_. True)\<rparr>" empty_world]
  by (simp add: example_defs ascii_empty)

subsection \<open>C2: the converter runs out of time\<close>

text \<open>
  C2 as stated fails. With a converter that does not finish within the 30 seconds, the
  handler returns no response at all: \<open>subprocess.TimeoutExpired\<close> leaves it, since no
  \<open>except\<close> clause catches it. One child was started, and no file is left.
\<close>

theorem timeout_response_counterexample:
  "convert_markdown_to_docx (quiet_env pandoc_hangs) hello_request empty_world =
     (Inl TimeoutExpired, empty_world\<lparr>spawned := 1\<rparr>)"
  by (simp add: convert_markdown_to_docx_def try_finally_def try_block_def finally_block_def
        write_text_def subprocess_run_def spawn_def reap_def os_path_exists_def os_remove_def
        hello_encoded ascii_empty example_defs pandoc_hangs_def path_defs)

text \<open>
  C2, amended. For every valid request whose converter exceeds the 30-second limit,
  \<open>subprocess.run\<close> kills the child (one child was started, none is left running), and
  the handler builds no response: it is left by an exception, \<open>TimeoutExpired\<close>, or
  \<open>OSError\<close> when an \<open>os.remove\<close> of the \<open>finally\<close> block raises. The HTTP layer answers
  either with a generic status 500 and no JSON body. The \<open>finally\<close> block has run before
  the handler is left: when no \<open>os.remove\<close> raises, neither artifact exists.
\<close>

theorem timeout_raises_after_cleanup:
  assumes "is_json req" and "get_json req = Some data"
    and "py_get data ''markdown'' = Inr (JStr s)" and "s \<noteq> []"
    and "str_encode s = Inr bytes"
    and "\<not> open_error e (input_md_path e)" and "\<not> write_error e (input_md_path e)"
    and "exec e [''pandoc'', input_md_path e, ''-o'', output_docx_path e] 30
           ((files w)(input_md_path e \<mapsto> bytes)) = StillRunning fs"
  shows "fst (convert_markdown_to_docx e req w) =
           (if deletion_raises e fs then Inl OSError else Inl TimeoutExpired) \<and>
         status (http_layer (fst (convert_markdown_to_docx e req w))) = 500 \<and>
         body (http_layer (fst (convert_markdown_to_docx e req w))) = HtmlBody \<and>
         spawned (snd (convert_markdown_to_docx e req w)) = Suc (spawned w) \<and>
         running (snd (convert_markdown_to_docx e req w)) = running w \<and>
         (\<not> deletion_raises e fs \<longrightarrow>
            \<not> os_path_exists (snd (convert_markdown_to_docx e req w)) (input_md_path e) \<and>
            \<not> os_path_exists (snd (convert_markdown_to_docx e req w)) (output_docx_path e))"
proof -
  have valid: "truthy (JStr s)"
    using assms(4) by simp
  note run = handler_after_validation [OF assms(1-3) valid, of e w]
  have tried: "try_block e (JStr s) w =
      (Inl TimeoutExpired, w\<lparr>files := fs, spawned := Suc (spawned w)\<rparr>)"
    using assms(5-8) by (simp add: try_block_converter)
  have outcome: "fst (convert_markdown_to_docx e req w) =
           (if deletion_raises e fs then Inl OSError else Inl TimeoutExpired)"
    by (simp add: run try_finally_outcome tried)
  have counters: "spawned (snd (convert_markdown_to_docx e req w)) = Suc (spawned w) \<and>
         running (snd (convert_markdown_to_docx e req w)) = running w"
    by (simp add: run try_finally_world tried finally_block_cases Let_def)
  have gone: "\<not> os_path_exists (snd (convert_markdown_to_docx e req w)) (input_md_path e) \<and>
            \<not> os_path_exists (snd (convert_markdown_to_docx e req w)) (output_docx_path e)"
    if "\<not> deletion_raises e fs"
    using that finally_block_leftovers [of e "w\<lparr>files := fs, spawned := Suc (spawned w)\<rparr>"]
    by (simp add: run try_finally_world tried)
  from outcome counters gone show ?thesis
    by (simp add: http_layer_def)
qed

text \<open>
  C2, amended, at concrete inputs: the converter that hangs, first with deletions that
  are carried out, then with an input artifact that cannot be removed.
\<close>

theorem timeout_raises_after_cleanup_witness:
  "fst (convert_markdown_to_docx (quiet_env pandoc_hangs) hello_request empty_world)
     = Inl TimeoutExpired \<and>
   status (http_layer (fst (convert_markdown_to_docx (quiet_env pandoc_hangs) hello_request
     empty_world))) = 500 \<and>
   spawned (snd (convert_markdown_to_docx (quiet_env pandoc_hangs) hello_request empty_world))
     = Suc (spawned empty_world) \<and>
   running (snd (convert_markdown_to_docx (quiet_env pandoc_hangs) hello_request empty_world))
     = running empty_world \<and>
   \<not> os_path_exists
       (snd (convert_markdown_to_docx (quiet_env pandoc_hangs) hello_request empty_world))
       (input_md_path (quiet_env pandoc_hangs)) \<and>
   \<not> os_path_exists
       (snd (convert_markdown_to_docx (quiet_env pandoc_hangs) hello_request empty_world))
       (output_docx_path (quiet_env pandoc_hangs)) \<and>
   fst (convert_markdown_to_docx ((quiet_env pandoc_hangs)\<lparr>remove_error := (\<lambda>_. True)\<rparr>)
          hello_request empty_world) = Inl OSError \<and>
   status (http_layer (fst (convert_markdown_to_docx
     ((quiet_env pandoc_hangs)\<lparr>remove_error := (\<lambda>_. True)\<rparr>) hello_request empty_world))) = 500"
proof -
  let ?fs = "[''/tmp/3f2b8c1e-9d4a-4e7b-8a6f-0c5d1e2f3a4b.md'' \<mapsto> ''# Hello'']"
  let ?e = "quiet_env pandoc_hangs"
  let ?e' = "(quiet_env pandoc_hangs)\<lparr>remove_error := (\<lambda>_. True)\<rparr>"
  let ?r = "convert_markdown_to_docx ?e hello_request empty_world"
  let ?r' = "convert_markdown_to_docx ?e' hello_request empty_world"
  have quiet: "\<not> deletion_raises ?e ?fs"
    by (simp add: deletion_raises_def quiet_env_def)
  have stuck: "deletion_raises ?e' ?fs"
    by (simp add: deletion_raises_def quiet_env_def token_def path_defs)
  have "fst ?r = (if deletion_raises ?e ?fs then Inl OSError else Inl TimeoutExpired) \<and>
        status (http_layer (fst ?r)) = 500 \<and>
        body (http_layer (fst ?r)) = HtmlBody \<and>
        spawned (snd ?r) = Suc (spawned empty_world) \<and>
        running (snd ?r) = running empty_world \<and>
        (\<not> deletion_raises ?e ?fs \<longrightarrow>
           \<not> os_path_exists (snd ?r) (input_md_path ?e) \<and>
           \<not> os_path_exists (snd ?r) (output_docx_path ?e))"
    by (rule timeout_raises_after_cleanup
          [where data = "JObj [(''markdown'', JStr (ascii ''# Hello''))]"
             and s = "ascii ''# Hello''" and bytes = "''# Hello''"])
       (simp_all add: hello_encoded ascii_empty example_defs pandoc_hangs_def path_defs)
  moreover
  have "fst ?r' = (if deletion_raises ?e' ?fs then Inl OSError else Inl TimeoutExpired) \<and>
        status (http_layer (fst ?r')) = 500 \<and>
        body (http_layer (fst ?r')) = HtmlBody \<and>
        spawned (snd ?r') = Suc (spawned empty_world) \<and>
        running (snd ?r') = running empty_world \<and>
        (\<not> deletion_raises ?e' ?fs \<longrightarrow>
           \<not> os_path_exists (snd ?r') (input_md_path ?e') \<and>
           \<not> os_path_exists (snd ?r') (output_docx_path ?e'))"
    by (rule timeout_raises_after_cleanup
          [where data = "JObj [(''markdown'', JStr (ascii ''# Hello''))]"
             and s = "ascii ''# Hello''" and bytes = "''# Hello''"])
       (simp_all add: hello_encoded ascii_empty example_defs pandoc_hangs_def path_defs)
  ultimately show ?thesis
    using quiet stuck by (simp add: http_layer_def)
qed

subsection \<open>C3: which failures the handler turns into a response\<close>




subsection \<open>C4: the converter exits with a non-zero code\<close>




subsection \<open>C5: the converter exits with code 0 and leaves no output\<close>




subsection \<open>C6: the order of validation\<close>




subsection \<open>C7: the success response\<close>




subsection \<open>C8: a deletion that fails\<close>

text \<open>
  C8 as stated fails. The \<open>try\<close> block has determined the success response with
  status 200; \<open>os.remove\<close> then fails in the \<open>finally\<close> block, and the handler is
  left by \<open>OSError\<close> instead: the error is not swallowed, it replaces the outcome.
\<close>

theorem deletion_error_counterexample:
  "fst (try_block ((quiet_env pandoc_writes)\<lparr>remove_error := (\<lambda>_. True)\<rparr>) (JStr (ascii ''# Hello''))
          empty_world) =
     Inr \<lparr>status = 200, mimetype = docx_mimetype, as_attachment = True,
          download_name = Some ''converted_document.docx'',
          body = FileBody ''PK-docx''\<rparr> \<and>
   fst (convert_markdown_to_docx ((quiet_env pandoc_writes)\<lparr>remove_error := (\<lambda>_. True)\<rparr>)
          hello_request empty_world) = Inl OSError"
  by (simp add: convert_markdown_to_docx_def try_finally_def try_block_def finally_block_def
        write_text_def subprocess_run_def spawn_def reap_def os_path_exists_def os_remove_def
        send_file_def hello_encoded ascii_empty example_defs pandoc_writes_def path_defs)

text \<open>
  C8, amended. The \<open>finally\<close> block has no \<open>except\<close> clause: an error raised by
  \<open>os.remove\<close> is not swallowed. When the deletion of an existing input artifact fails,
  the handler is left by \<open>OSError\<close> in place of the outcome the \<open>try\<close> block has
  determined, and the deletion of the output artifact is not attempted; when the deletion
  of an existing output artifact fails, the handler is left by \<open>OSError\<close> as well.
  Only when no deletion fails is the outcome the one the \<open>try\<close> block has determined,
  with both artifacts removed.
\<close>

theorem deletion_error_replaces_outcome:
  assumes "is_json req" and "get_json req = Some data"
    and "py_get data ''markdown'' = Inr m" and "truthy m"
    and "try_block e m w = (outcome, w1)"
  shows "convert_markdown_to_docx e req w =
     (if os_path_exists w1 (input_md_path e) \<and> remove_error e (input_md_path e)
      then (Inl OSError, w1)
      else if os_path_exists (w1\<lparr>files := (files w1)(input_md_path e := None)\<rparr>)
                (output_docx_path e) \<and> remove_error e (output_docx_path e)
      then (Inl OSError, w1\<lparr>files := (files w1)(input_md_path e := None)\<rparr>)
      else (outcome,
            w1\<lparr>files := (files w1)(input_md_path e := None, output_docx_path e := None)\<rparr>))"
  using assms(5)
  by (simp add: handler_after_validation [OF assms(1-4)] try_finally_def finally_block_cases
        Let_def)

text \<open>
  C8, amended, at a concrete input: the input artifact cannot be deleted; both artifacts
  are still there when the handler is left by \<open>OSError\<close>.
\<close>

theorem deletion_error_replaces_outcome_witness:
  "convert_markdown_to_docx ((quiet_env pandoc_writes)\<lparr>remove_error := (\<lambda>p. p = ''/tmp/3f2b8c1e-9d4a-4e7b-8a6f-0c5d1e2f3a4b.md'')\<rparr>)
     hello_request empty_world =
   (Inl OSError,
    \<lparr>files = [''/tmp/3f2b8c1e-9d4a-4e7b-8a6f-0c5d1e2f3a4b.md'' \<mapsto> ''# Hello'',
              ''/tmp/3f2b8c1e-9d4a-4e7b-8a6f-0c5d1e2f3a4b.docx'' \<mapsto> ''PK-docx''],
     spawned = 1, running = 0, printed = []\<rparr>)"
  using deletion_error_replaces_outcome
    [of hello_request "JObj [(''markdown'', JStr (ascii ''# Hello''))]" "JStr (ascii ''# Hello'')"
      "(quiet_env pandoc_writes)\<lparr>remove_error := (\<lambda>p. p = ''/tmp/3f2b8c1e-9d4a-4e7b-8a6f-0c5d1e2f3a4b.md'')\<rparr>"
      empty_world
      "Inr \<lparr>status = 200, mimetype = docx_mimetype, as_attachment = True,
            download_name = Some ''converted_document.docx'',
            body = FileBody ''PK-docx''\<rparr>"
      "\<lparr>files = [''/tmp/3f2b8c1e-9d4a-4e7b-8a6f-0c5d1e2f3a4b.md'' \<mapsto> ''# Hello'',
              ''/tmp/3f2b8c1e-9d4a-4e7b-8a6f-0c5d1e2f3a4b.docx'' \<mapsto> ''PK-docx''],
        spawned = 1, running = 0, printed = []\<rparr>"]
  by (simp add: try_block_def write_text_def subprocess_run_def spawn_def reap_def
        os_path_exists_def send_file_def hello_encoded ascii_empty example_defs pandoc_writes_def
        path_defs)

subsection \<open>C9: the scratch directory\<close>

text \<open>
  C9 as stated fails. With the environment variables \<open>TEMP_DIR\<close> and \<open>TMPDIR\<close>
  set to another directory, both artifact paths are still inside \<open>/tmp\<close>.
\<close>

theorem scratch_directory_counterexample:
  "input_md_path ((quiet_env pandoc_writes)
      \<lparr>environ := [''TEMP_DIR'' \<mapsto> ''/var/scratch'', ''TMPDIR'' \<mapsto> ''/var/scratch'']\<rparr>) =
     ''/tmp/3f2b8c1e-9d4a-4e7b-8a6f-0c5d1e2f3a4b.md'' \<and>
   output_docx_path ((quiet_env pandoc_writes)
      \<lparr>environ := [''TEMP_DIR'' \<mapsto> ''/var/scratch'', ''TMPDIR'' \<mapsto> ''/var/scratch'']\<rparr>) =
     ''/tmp/3f2b8c1e-9d4a-4e7b-8a6f-0c5d1e2f3a4b.docx''"
  by (simp add: example_defs pandoc_writes_def path_defs)

text \<open>
  C9, amended. The scratch directory from which both artifact paths are derived is the
  module constant \<open>TEMP_DIR = '/tmp'\<close>, a fixed temp directory: whatever the process
  environment holds, the paths are \<open>/tmp/<token>.md\<close> and \<open>/tmp/<token>.docx\<close>.
\<close>

theorem scratch_directory_fixed:
  assumes "is_uuid_str (uuid4 e)"
  shows "TEMP_DIR = ''/tmp'' \<and>
         input_md_path (e\<lparr>environ := vars\<rparr>) = ''/tmp/'' @ uuid4 e @ ''.md'' \<and>
         output_docx_path (e\<lparr>environ := vars\<rparr>) = ''/tmp/'' @ uuid4 e @ ''.docx''"
  using uuid_paths [of "e\<lparr>environ := vars\<rparr>"] assms
  by (simp add: TEMP_DIR_def)

text \<open>
  C9, amended, at a concrete input.
\<close>

theorem scratch_directory_fixed_witness:
  "TEMP_DIR = ''/tmp'' \<and>
   input_md_path ((quiet_env pandoc_writes)\<lparr>environ := [''TMPDIR'' \<mapsto> ''/var/scratch'']\<rparr>) =
     ''/tmp/'' @ uuid4 (quiet_env pandoc_writes) @ ''.md'' \<and>
   output_docx_path ((quiet_env pandoc_writes)\<lparr>environ := [''TMPDIR'' \<mapsto> ''/var/scratch'']\<rparr>) =
     ''/tmp/'' @ uuid4 (quiet_env pandoc_writes) @ ''.docx''"
  by (rule scratch_directory_fixed) (simp add: quiet_env_def token_is_uuid)

subsection \<open>C10: a JSON body that is not an object\<close>

text \<open>
  C10. For every request of JSON content type whose parsed body is not an object (an
  array, a string, a number, a boolean or null), \<open>data.get('markdown')\<close> raises
  \<open>AttributeError\<close>, which nothing catches: the handler returns no response, the world
  is left as it was, and the HTTP layer answers with status 500 instead of the
  documented 400.
\<close>

theorem non_object_body_raises:
  assumes "is_json req" and "get_json req = Some data" and "\<not> is_dict data"
  shows "convert_markdown_to_docx e req w = (Inl AttributeError, w) \<and>
         status (http_layer (fst (convert_markdown_to_docx e req w))) = 500"
proof -
  from assms(3) have "py_get data ''markdown'' = Inl AttributeError"
    by (cases data) simp_all
  with assms(1,2) show ?thesis
    by (simp add: convert_markdown_to_docx_def http_layer_def)
qed

text \<open>
  C10 at a concrete input: the body \<open>["# Hello"]\<close>.
\<close>

theorem non_object_body_raises_witness:
  "convert_markdown_to_docx (quiet_env pandoc_writes)
     \<lparr>is_json = True, get_json = Some (JArr [JStr (ascii ''# Hello'')])\<rparr> empty_world =
     (Inl AttributeError, empty_world) \<and>
   status (http_layer (fst (convert_markdown_to_docx (quiet_env pandoc_writes)
     \<lparr>is_json = True, get_json = Some (JArr [JStr (ascii ''# Hello'')])\<rparr> empty_world))) = 500"
  by (rule non_object_body_raises [where data = "JArr [JStr (ascii ''# Hello'')]"]) simp_all

end
